theory Spec2Isabelle
  imports Main
begin

section \<open>Data model of connection.go\<close>

text \<open>
  The file \<^verbatim>\<open>connection.go\<close> holds one struct, \<^verbatim>\<open>connection\<close>, and its methods.
  Everything the methods call lives outside the file: the fbthrift transports, the
  generated \<^verbatim>\<open>graph.GraphServiceClient\<close> stub, \<^verbatim>\<open>net.JoinHostPort\<close>, \<^verbatim>\<open>strconv.Itoa\<close>
  and \<^verbatim>\<open>fmt.Errorf\<close>. The embedding keeps the methods as they are written and takes the
  behaviour of the remote side as a parameter \<open>env\<close>: for every call that crosses the
  boundary, \<open>env\<close> gives the answer as a function of the calls made so far.
\<close>

record HostAddress =
  Host :: string
  Port :: int

type_synonym Duration = int
type_synonym Time = int

text \<open>A \<^verbatim>\<open>*tls.Config\<close> is a pointer; only its identity is used, \<open>None\<close> is \<^verbatim>\<open>nil\<close>.\<close>
type_synonym tls_Config = nat

text \<open>
  \<^verbatim>\<open>http.Header\<close> is \<^verbatim>\<open>map[string][]string\<close>. The only use is a \<^verbatim>\<open>range\<close> loop, which
  visits every key once in an order Go leaves open: the list is the map in the order the
  loop visits it. \<open>None\<close> is the \<^verbatim>\<open>nil\<close> map.
\<close>
type_synonym http_Header = "(string \<times> string list) list"

text \<open>Query parameters, \<^verbatim>\<open>map[string]*nebula.Value\<close>; the values are opaque to this file.\<close>
datatype Value = NVal | BVal bool | IVal int | SVal string
type_synonym params = "(string \<times> Value) list"

subsection \<open>Errors\<close>

text \<open>
  A Go \<^verbatim>\<open>error\<close> is either a \<^verbatim>\<open>thrift.TransportException\<close>, which carries a type id, or
  any other error, of which only the text is observable. \<^verbatim>\<open>fmt.Errorf\<close> builds an error of
  the second kind from the expanded format string.
\<close>
datatype error = TransportException nat string | PlainError string

fun Error :: "error \<Rightarrow> string" where
  "Error (TransportException t m) = m"
| "Error (PlainError m) = m"

definition Errorf :: "string \<Rightarrow> error" where
  "Errorf s = PlainError s"

text \<open>\<^verbatim>\<open>thrift.TIMED_OUT\<close> in fbthrift's transport exception type ids.\<close>
definition TIMED_OUT :: nat where
  "TIMED_OUT = 3"

subsection \<open>Responses of the graph service\<close>

record VerifyClientVersionResp =
  GetErrorCode :: int
  GetErrorMsg :: string

definition ErrorCode_SUCCEEDED :: int where
  "ErrorCode_SUCCEEDED = 0"

datatype AuthResponse = AuthResponse int string "int option"
datatype ExecutionResponse = ExecutionResponse int string

subsection \<open>Transports and the RPC stub\<close>

text \<open>
  The transports \<^verbatim>\<open>open\<close> can build, as terms that keep every argument of the
  constructor: an HTTP POST client (URL, TLS config of the HTTP/2 transport or
  \<open>None\<close> for the cleartext dialer, headers added so far), a socket, a TLS socket, and
  the buffered and header wrappers.
\<close>
datatype Transport =
    HTTPClient string "tls_Config option" "(string \<times> string) list"
  | Socket string Duration
  | SSLSocket string tls_Config Duration
  | BufferedTransport nat Transport
  | HeaderTransport Transport

datatype ProtocolFactory = BinaryProtocolFactoryDefault | HeaderProtocolFactory

text \<open>
  The stub owns its transport. \<open>opened\<close> is the state of that transport as the stub's
  own methods leave or report it: set by a successful \<^verbatim>\<open>Open\<close>, cleared by \<^verbatim>\<open>Close\<close>, and
  equal to the answer of the last \<^verbatim>\<open>IsOpen\<close>. \<^verbatim>\<open>Close\<close> clears it whatever it returns, which
  is how the source treats it: \<^verbatim>\<open>close\<close> drops the result (line 236) and \<^verbatim>\<open>reopen\<close> builds
  the next transport right after it.
\<close>
record GraphServiceClient =
  Trans :: Transport
  Proto :: ProtocolFactory
  opened :: bool

record connection =
  severAddress :: HostAddress
  timeout :: Duration
  returnedAt :: Time
  sslConfig :: "tls_Config option"
  useHTTP2 :: bool
  httpHeader :: "http_Header option"
  handshakeKey :: string
  graph :: "GraphServiceClient option"

subsection \<open>The boundary: calls and the environment\<close>

datatype call =
    Call_NewHTTPPostClientWithOptions string "tls_Config option"
  | Call_NewSSLSocketTimeout string tls_Config Duration
  | Call_NewSocket string Duration
  | Call_SetHeader string string
  | Call_Open
  | Call_IsOpen
  | Call_Close
  | Call_VerifyClientVersion "string option"
  | Call_Authenticate string string
  | Call_ExecuteWithParameter int string params
  | Call_ExecuteWithTimeout int string params int
  | Call_ExecuteJsonWithParameter int string params
  | Call_Signout int

text \<open>
  The environment answers a call from the whole history, the call itself last. A
  generated stub method returns either an error or a response, hence the sums.
\<close>
record env =
  new_transport_err :: "call list \<Rightarrow> error option"
  open_err :: "call list \<Rightarrow> error option"
  is_open_res :: "call list \<Rightarrow> bool"
  close_err :: "call list \<Rightarrow> error option"
  verify_res :: "call list \<Rightarrow> error + VerifyClientVersionResp"
  auth_res :: "call list \<Rightarrow> error + AuthResponse"
  exec_res :: "call list \<Rightarrow> error + ExecutionResponse"
  exec_timeout_res :: "call list \<Rightarrow> error + ExecutionResponse"
  exec_json_res :: "call list \<Rightarrow> error + string"
  signout_err :: "call list \<Rightarrow> error option"

text \<open>
  A method either returns, with its results, the connection as it left it and the
  history, or panics: the only panic in this file is a call through the \<^verbatim>\<open>nil\<close> stub,
  whose generated methods all read the receiver's client connection.
\<close>
datatype 'a outcome = Panic | Return 'a connection "call list"

text \<open>A Go result pair \<^verbatim>\<open>(resp, err)\<close> from a stub answer.\<close>
fun go_pair :: "error + 'a \<Rightarrow> 'a option \<times> error option" where
  "go_pair (Inl e) = (None, Some e)"
| "go_pair (Inr r) = (Some r, None)"

section \<open>Library functions used by open\<close>

definition digit_char :: "nat \<Rightarrow> char" where
  "digit_char d = ''0123456789'' ! d"

function nat_digits :: "nat \<Rightarrow> string" where
  "nat_digits n = (if n < 10 then [digit_char n] else nat_digits (n div 10) @ [digit_char (n mod 10)])"
  by pat_completeness auto
termination
  by (relation "measure id") auto

declare nat_digits.simps [simp del]

text \<open>\<^verbatim>\<open>strconv.Itoa\<close>: decimal digits, with a minus sign for a negative number.\<close>
definition Itoa :: "int \<Rightarrow> string" where
  "Itoa i = (if i < 0 then CHR ''-'' # nat_digits (nat (- i)) else nat_digits (nat i))"

text \<open>\<^verbatim>\<open>net.JoinHostPort\<close>: a host with a colon in it is put in brackets.\<close>
definition JoinHostPort :: "string \<Rightarrow> string \<Rightarrow> string" where
  "JoinHostPort host port =
     (if CHR '':'' \<in> set host then ''['' @ host @ '']:'' @ port else host @ '':'' @ port)"

section \<open>The transport constructors and the stub's methods\<close>

definition NewHTTPPostClientWithOptions ::
  "env \<Rightarrow> string \<Rightarrow> tls_Config option \<Rightarrow> call list \<Rightarrow> (error + Transport) \<times> call list" where
  "NewHTTPPostClientWithOptions env url tls tr =
     (let tr' = tr @ [Call_NewHTTPPostClientWithOptions url tls] in
      case new_transport_err env tr' of
        Some e \<Rightarrow> (Inl e, tr')
      | None \<Rightarrow> (Inr (HTTPClient url tls []), tr'))"

definition NewSSLSocketTimeout ::
  "env \<Rightarrow> string \<Rightarrow> tls_Config \<Rightarrow> Duration \<Rightarrow> call list \<Rightarrow> (error + Transport) \<times> call list" where
  "NewSSLSocketTimeout env addr tls t tr =
     (let tr' = tr @ [Call_NewSSLSocketTimeout addr tls t] in
      case new_transport_err env tr' of
        Some e \<Rightarrow> (Inl e, tr')
      | None \<Rightarrow> (Inr (SSLSocket addr tls t), tr'))"

definition NewSocket ::
  "env \<Rightarrow> string \<Rightarrow> Duration \<Rightarrow> call list \<Rightarrow> (error + Transport) \<times> call list" where
  "NewSocket env addr t tr =
     (let tr' = tr @ [Call_NewSocket addr t] in
      case new_transport_err env tr' of
        Some e \<Rightarrow> (Inl e, tr')
      | None \<Rightarrow> (Inr (Socket addr t), tr'))"

text \<open>The type assertion \<^verbatim>\<open>transport.(*thrift.HTTPClient)\<close>.\<close>
fun as_HTTPClient :: "Transport \<Rightarrow> Transport option" where
  "as_HTTPClient (HTTPClient url tls hs) = Some (HTTPClient url tls hs)"
| "as_HTTPClient t = None"

text \<open>
  \<^verbatim>\<open>client.SetHeader(k, v)\<close>: fbthrift adds the value to the header (the source's comment:
  "fbthrift set header with http.Header.Add"), so the client keeps every pair added.
\<close>
fun SetHeader :: "string \<Rightarrow> string \<Rightarrow> Transport \<Rightarrow> call list \<Rightarrow> Transport \<times> call list" where
  "SetHeader k v (HTTPClient url tls hs) tr =
     (HTTPClient url tls (hs @ [(k, v)]), tr @ [Call_SetHeader k v])"
| "SetHeader k v t tr = (t, tr @ [Call_SetHeader k v])"

definition NewGraphServiceClientFactory :: "Transport \<Rightarrow> ProtocolFactory \<Rightarrow> GraphServiceClient" where
  "NewGraphServiceClientFactory t pf = \<lparr>Trans = t, Proto = pf, opened = False\<rparr>"

definition graph_Open ::
  "env \<Rightarrow> GraphServiceClient \<Rightarrow> call list \<Rightarrow> error option \<times> GraphServiceClient \<times> call list" where
  "graph_Open env g tr =
     (let tr' = tr @ [Call_Open] in
      case open_err env tr' of
        Some e \<Rightarrow> (Some e, g, tr')
      | None \<Rightarrow> (None, g\<lparr>opened := True\<rparr>, tr'))"

definition graph_IsOpen ::
  "env \<Rightarrow> GraphServiceClient \<Rightarrow> call list \<Rightarrow> bool \<times> GraphServiceClient \<times> call list" where
  "graph_IsOpen env g tr =
     (let tr' = tr @ [Call_IsOpen]; b = is_open_res env tr' in (b, g\<lparr>opened := b\<rparr>, tr'))"

definition graph_Close ::
  "env \<Rightarrow> GraphServiceClient \<Rightarrow> call list \<Rightarrow> error option \<times> GraphServiceClient \<times> call list" where
  "graph_Close env g tr =
     (let tr' = tr @ [Call_Close] in (close_err env tr', g\<lparr>opened := False\<rparr>, tr'))"

definition graph_VerifyClientVersion ::
  "env \<Rightarrow> string option \<Rightarrow> call list \<Rightarrow> (error + VerifyClientVersionResp) \<times> call list" where
  "graph_VerifyClientVersion env req tr =
     (let tr' = tr @ [Call_VerifyClientVersion req] in (verify_res env tr', tr'))"

definition graph_Authenticate ::
  "env \<Rightarrow> string \<Rightarrow> string \<Rightarrow> call list \<Rightarrow> (error + AuthResponse) \<times> call list" where
  "graph_Authenticate env username password tr =
     (let tr' = tr @ [Call_Authenticate username password] in (auth_res env tr', tr'))"

definition graph_ExecuteWithParameter ::
  "env \<Rightarrow> int \<Rightarrow> string \<Rightarrow> params \<Rightarrow> call list \<Rightarrow> (error + ExecutionResponse) \<times> call list" where
  "graph_ExecuteWithParameter env sessionID stmt ps tr =
     (let tr' = tr @ [Call_ExecuteWithParameter sessionID stmt ps] in (exec_res env tr', tr'))"

definition graph_ExecuteWithTimeout ::
  "env \<Rightarrow> int \<Rightarrow> string \<Rightarrow> params \<Rightarrow> int \<Rightarrow> call list \<Rightarrow> (error + ExecutionResponse) \<times> call list" where
  "graph_ExecuteWithTimeout env sessionID stmt ps timeoutMs tr =
     (let tr' = tr @ [Call_ExecuteWithTimeout sessionID stmt ps timeoutMs] in
      (exec_timeout_res env tr', tr'))"

definition graph_ExecuteJsonWithParameter ::
  "env \<Rightarrow> int \<Rightarrow> string \<Rightarrow> params \<Rightarrow> call list \<Rightarrow> (error + string) \<times> call list" where
  "graph_ExecuteJsonWithParameter env sessionID stmt ps tr =
     (let tr' = tr @ [Call_ExecuteJsonWithParameter sessionID stmt ps] in
      (exec_json_res env tr', tr'))"

definition graph_Signout :: "env \<Rightarrow> int \<Rightarrow> call list \<Rightarrow> error option \<times> call list" where
  "graph_Signout env sessionID tr =
     (let tr' = tr @ [Call_Signout sessionID] in (signout_err env tr', tr'))"

section \<open>The methods of connection\<close>

text \<open>\<^verbatim>\<open>newConnection\<close>; the clock reading of \<^verbatim>\<open>time.Now()\<close> is the argument \<open>now\<close>.\<close>
definition newConnection :: "Time \<Rightarrow> HostAddress \<Rightarrow> connection" where
  "newConnection now addr =
     \<lparr>severAddress = addr, timeout = 0, returnedAt = now, sslConfig = None,
      useHTTP2 = False, httpHeader = None, handshakeKey = [], graph = None\<rparr>"

definition close :: "env \<Rightarrow> connection \<Rightarrow> call list \<Rightarrow> unit outcome" where
  "close env cn tr =
     (case graph cn of
        None \<Rightarrow> Panic
      | Some g \<Rightarrow>
          (case graph_Close env g tr of
             (e, g', tr') \<Rightarrow> Return () (cn\<lparr>graph := Some g'\<rparr>) tr'))"

text \<open>
  Lines 138-141: the request of the handshake. \<open>None\<close> is the request as
  \<^verbatim>\<open>NewVerifyClientVersionReq\<close> makes it, \<open>Some k\<close> the one whose version was set to the key.
\<close>
definition handshake_req :: "connection \<Rightarrow> string option" where
  "handshake_req cn = (if handshakeKey cn \<noteq> [] then Some (handshakeKey cn) else None)"

definition verifyClientVersion :: "env \<Rightarrow> connection \<Rightarrow> call list \<Rightarrow> error option outcome" where
  "verifyClientVersion env cn tr =
     (let req = handshake_req cn in
      case graph cn of
        None \<Rightarrow> Panic
      | Some g \<Rightarrow>
          (case graph_VerifyClientVersion env req tr of
             (Inl err, tr1) \<Rightarrow>
               (case close env cn tr1 of
                  Panic \<Rightarrow> Panic
                | Return u cn2 tr2 \<Rightarrow>
                    Return (Some (Errorf (''failed to verify client handshakeKey: '' @ Error err)))
                      cn2 tr2)
           | (Inr resp, tr1) \<Rightarrow>
               if GetErrorCode resp \<noteq> ErrorCode_SUCCEEDED
               then Return (Some (Errorf (''incompatible handshakeKey between client and server: ''
                                          @ GetErrorMsg resp))) cn tr1
               else Return None cn tr1))"

text \<open>The inner loop of \<^verbatim>\<open>open\<close>, lines 103-106: one \<^verbatim>\<open>SetHeader\<close> per value.\<close>
fun set_values :: "string \<Rightarrow> string list \<Rightarrow> Transport \<Rightarrow> call list \<Rightarrow> Transport \<times> call list" where
  "set_values k [] client tr = (client, tr)"
| "set_values k (v # vv) client tr =
     (case SetHeader k v client tr of (client', tr') \<Rightarrow> set_values k vv client' tr')"

text \<open>The outer loop, lines 98-107: \<^verbatim>\<open>Content-Type\<close> is skipped.\<close>
fun set_headers :: "http_Header \<Rightarrow> Transport \<Rightarrow> call list \<Rightarrow> Transport \<times> call list" where
  "set_headers [] client tr = (client, tr)"
| "set_headers ((k, vv) # rest) client tr =
     (if k = ''Content-Type'' then set_headers rest client tr
      else (case set_values k vv client tr of (client', tr') \<Rightarrow> set_headers rest client' tr'))"

text \<open>Lines 127-134 of \<^verbatim>\<open>open\<close>, where its two branches meet.\<close>
definition open_graph ::
  "env \<Rightarrow> Transport \<Rightarrow> ProtocolFactory \<Rightarrow> connection \<Rightarrow> call list \<Rightarrow> error option outcome" where
  "open_graph env transport pf cn tr =
     (case graph_Open env (NewGraphServiceClientFactory transport pf) tr of
        (Some err, g1, tr1) \<Rightarrow>
          Return (Some (Errorf (''failed to open transport, error: '' @ Error err)))
            (cn\<lparr>graph := Some g1\<rparr>) tr1
      | (None, g1, tr1) \<Rightarrow>
          (case graph_IsOpen env g1 tr1 of
             (b, g2, tr2) \<Rightarrow>
               if \<not> b then Return (Some (Errorf ''transport is off'')) (cn\<lparr>graph := Some g2\<rparr>) tr2
               else verifyClientVersion env (cn\<lparr>graph := Some g2\<rparr>) tr2))"

definition "open" ::
  "env \<Rightarrow> HostAddress \<Rightarrow> Duration \<Rightarrow> tls_Config option \<Rightarrow> bool \<Rightarrow> http_Header option \<Rightarrow> string
   \<Rightarrow> connection \<Rightarrow> call list \<Rightarrow> error option outcome" where
  "open env hostAddress timeout' sslConfig' useHTTP2' httpHeader' handshakeKey' cn0 tr =
     (let newAdd = JoinHostPort (Host hostAddress) (Itoa (Port hostAddress));
          cn = cn0\<lparr>timeout := timeout', useHTTP2 := useHTTP2', handshakeKey := handshakeKey'\<rparr>
      in
      if useHTTP2' then
        (case (case sslConfig' of
                 Some c \<Rightarrow> NewHTTPPostClientWithOptions env (''https://'' @ newAdd) (Some c) tr
               | None \<Rightarrow> NewHTTPPostClientWithOptions env (''http://'' @ newAdd) None tr) of
           (Inl err, tr1) \<Rightarrow>
             Return (Some (Errorf (''failed to create a net.Conn-backed Transport,: '' @ Error err)))
               cn tr1
         | (Inr transport, tr1) \<Rightarrow>
             (case httpHeader' of
                None \<Rightarrow> open_graph env transport BinaryProtocolFactoryDefault cn tr1
              | Some h \<Rightarrow>
                  (case as_HTTPClient transport of
                     None \<Rightarrow> Return (Some (Errorf ''failed to get thrift http client'')) cn tr1
                   | Some client \<Rightarrow>
                       (case set_headers h client tr1 of
                          (client', tr2) \<Rightarrow>
                            open_graph env client' BinaryProtocolFactoryDefault cn tr2))))
      else
        (let bufferSize = 128 * 2 ^ 10 in
         case (case sslConfig' of
                 Some c \<Rightarrow> NewSSLSocketTimeout env newAdd c timeout' tr
               | None \<Rightarrow> NewSocket env newAdd timeout' tr) of
           (Inl err, tr1) \<Rightarrow>
             Return (Some (Errorf (''failed to create a net.Conn-backed Transport,: '' @ Error err)))
               cn tr1
         | (Inr sock, tr1) \<Rightarrow>
             open_graph env (HeaderTransport (BufferedTransport bufferSize sock))
               HeaderProtocolFactory cn tr1))"

definition reopen :: "env \<Rightarrow> connection \<Rightarrow> call list \<Rightarrow> error option outcome" where
  "reopen env cn tr =
     (case close env cn tr of
        Panic \<Rightarrow> Panic
      | Return u cn1 tr1 \<Rightarrow>
          open env (severAddress cn1) (timeout cn1) (sslConfig cn1) (useHTTP2 cn1)
            (httpHeader cn1) (handshakeKey cn1) cn1 tr1)"

definition authenticate ::
  "env \<Rightarrow> string \<Rightarrow> string \<Rightarrow> connection \<Rightarrow> call list
   \<Rightarrow> (AuthResponse option \<times> error option) outcome" where
  "authenticate env username password cn tr =
     (case graph cn of
        None \<Rightarrow> Panic
      | Some g \<Rightarrow>
          (case graph_Authenticate env username password tr of
             (Inl err0, tr1) \<Rightarrow>
               (let err = Errorf (''authentication fails, '' @ Error err0) in
                case graph_Close env g tr1 of
                  (Some e, g', tr2) \<Rightarrow>
                    Return (None, Some (Errorf (''fail to close transport, error: '' @ Error e)))
                      (cn\<lparr>graph := Some g'\<rparr>) tr2
                | (None, g', tr2) \<Rightarrow> Return (None, Some err) (cn\<lparr>graph := Some g'\<rparr>) tr2)
           | (Inr resp, tr1) \<Rightarrow> Return (Some resp, None) cn tr1))"

definition executeWithParameter ::
  "env \<Rightarrow> int \<Rightarrow> string \<Rightarrow> params \<Rightarrow> connection \<Rightarrow> call list
   \<Rightarrow> (ExecutionResponse option \<times> error option) outcome" where
  "executeWithParameter env sessionID stmt ps cn tr =
     (case graph cn of
        None \<Rightarrow> Panic
      | Some g \<Rightarrow>
          (case graph_ExecuteWithParameter env sessionID stmt ps tr of
             (Inl err, tr1) \<Rightarrow> Return (None, Some err) cn tr1
           | (Inr resp, tr1) \<Rightarrow> Return (Some resp, None) cn tr1))"

definition execute ::
  "env \<Rightarrow> int \<Rightarrow> string \<Rightarrow> connection \<Rightarrow> call list
   \<Rightarrow> (ExecutionResponse option \<times> error option) outcome" where
  "execute env sessionID stmt cn tr = executeWithParameter env sessionID stmt [] cn tr"

definition executeWithParameterTimeout ::
  "env \<Rightarrow> int \<Rightarrow> string \<Rightarrow> params \<Rightarrow> int \<Rightarrow> connection \<Rightarrow> call list
   \<Rightarrow> (ExecutionResponse option \<times> error option) outcome" where
  "executeWithParameterTimeout env sessionID stmt ps timeoutMs cn tr =
     (case graph cn of
        None \<Rightarrow> Panic
      | Some g \<Rightarrow>
          (case graph_ExecuteWithTimeout env sessionID stmt ps timeoutMs tr of
             (r, tr1) \<Rightarrow> Return (go_pair r) cn tr1))"

definition ExecuteJsonWithParameter ::
  "env \<Rightarrow> int \<Rightarrow> string \<Rightarrow> params \<Rightarrow> connection \<Rightarrow> call list
   \<Rightarrow> (string option \<times> error option) outcome" where
  "ExecuteJsonWithParameter env sessionID stmt ps cn tr =
     (case graph cn of
        None \<Rightarrow> Panic
      | Some g \<Rightarrow>
          (case graph_ExecuteJsonWithParameter env sessionID stmt ps tr of
             (Inl (TransportException ty m), tr1) \<Rightarrow>
               if ty = TIMED_OUT then
                 (case reopen env cn tr1 of
                    Panic \<Rightarrow> Panic
                  | Return (Some reopenErr) cn2 tr2 \<Rightarrow> Return (None, Some reopenErr) cn2 tr2
                  | Return None cn2 tr2 \<Rightarrow>
                      (case graph cn2 of
                         None \<Rightarrow> Panic
                       | Some g2 \<Rightarrow>
                           (case graph_ExecuteJsonWithParameter env sessionID stmt ps tr2 of
                              (r, tr3) \<Rightarrow> Return (go_pair r) cn2 tr3)))
               else Return (None, Some (TransportException ty m)) cn tr1
           | (r, tr1) \<Rightarrow> Return (go_pair r) cn tr1))"

definition executeJson ::
  "env \<Rightarrow> int \<Rightarrow> string \<Rightarrow> connection \<Rightarrow> call list \<Rightarrow> (string option \<times> error option) outcome" where
  "executeJson env sessionID stmt cn tr = ExecuteJsonWithParameter env sessionID stmt [] cn tr"

definition ping :: "env \<Rightarrow> connection \<Rightarrow> call list \<Rightarrow> bool outcome" where
  "ping env cn tr =
     (case execute env 0 ''YIELD 1'' cn tr of
        Panic \<Rightarrow> Panic
      | Return (r, err) cn1 tr1 \<Rightarrow> Return (err = None) cn1 tr1)"

definition signOut :: "env \<Rightarrow> int \<Rightarrow> connection \<Rightarrow> call list \<Rightarrow> error option outcome" where
  "signOut env sessionID cn tr =
     (case graph cn of
        None \<Rightarrow> Panic
      | Some g \<Rightarrow> (case graph_Signout env sessionID tr of (e, tr1) \<Rightarrow> Return e cn tr1))"

text \<open>\<^verbatim>\<open>release\<close>; the clock reading of \<^verbatim>\<open>time.Now()\<close> is the argument \<open>now\<close>.\<close>
definition release :: "Time \<Rightarrow> connection \<Rightarrow> call list \<Rightarrow> unit outcome" where
  "release now cn tr = Return () (cn\<lparr>returnedAt := now\<rparr>) tr"

section \<open>Notions used in the statements\<close>

text \<open>The connection has a usable transport handle: a stub whose transport is open.\<close>
definition is_open :: "connection \<Rightarrow> bool" where
  "is_open cn = (case graph cn of None \<Rightarrow> False | Some g \<Rightarrow> opened g)"

fun is_verify_call :: "call \<Rightarrow> bool" where
  "is_verify_call (Call_VerifyClientVersion req) = True"
| "is_verify_call c = False"

text \<open>The calls that construct a transport: one per \<^verbatim>\<open>open\<close>, hence one per reopen.\<close>
fun is_new_transport :: "call \<Rightarrow> bool" where
  "is_new_transport (Call_NewHTTPPostClientWithOptions url tls) = True"
| "is_new_transport (Call_NewSSLSocketTimeout addr tls t) = True"
| "is_new_transport (Call_NewSocket addr t) = True"
| "is_new_transport c = False"

fun is_exec_json :: "call \<Rightarrow> bool" where
  "is_exec_json (Call_ExecuteJsonWithParameter sid stmt ps) = True"
| "is_exec_json c = False"

fun is_set_header :: "call \<Rightarrow> bool" where
  "is_set_header (Call_SetHeader k v) = True"
| "is_set_header c = False"

text \<open>
  The history ends with the handshake call, and the server answered it with
  \<^verbatim>\<open>SUCCEEDED\<close> (\<open>handshaked\<close>) or with another error code (\<open>rejected\<close>).
\<close>
definition handshaked :: "env \<Rightarrow> call list \<Rightarrow> bool" where
  "handshaked env tr =
     (tr \<noteq> [] \<and> is_verify_call (last tr) \<and>
      (case verify_res env tr of
         Inl e \<Rightarrow> False
       | Inr resp \<Rightarrow> GetErrorCode resp = ErrorCode_SUCCEEDED))"

definition rejected :: "env \<Rightarrow> call list \<Rightarrow> bool" where
  "rejected env tr =
     (tr \<noteq> [] \<and> is_verify_call (last tr) \<and>
      (case verify_res env tr of
         Inl e \<Rightarrow> False
       | Inr resp \<Rightarrow> GetErrorCode resp \<noteq> ErrorCode_SUCCEEDED))"

text \<open>
  The specification's account of the header copy, to compare the loops with: every
  value of every key other than \<^verbatim>\<open>Content-Type\<close>, as one pair per value.
\<close>
definition spec_header_pairs :: "http_Header \<Rightarrow> (string \<times> string) list" where
  "spec_header_pairs h =
     concat (map (\<lambda>(k, vv). map (Pair k) vv) (filter (\<lambda>(k, vv). k \<noteq> ''Content-Type'') h))"

text \<open>
  The handshake that the history records for the current transport. Opening a transport
  and closing one both start afresh; a handshake call sets the state from the server's
  answer; no other call changes it.
\<close>
datatype handshake = NotVerified | Verified | Refused

fun handshake_step :: "env \<Rightarrow> call list \<Rightarrow> call \<Rightarrow> handshake \<Rightarrow> handshake" where
  "handshake_step env p Call_Open h = NotVerified"
| "handshake_step env p Call_Close h = NotVerified"
| "handshake_step env p (Call_VerifyClientVersion req) h =
     (case verify_res env p of
        Inl e \<Rightarrow> NotVerified
      | Inr resp \<Rightarrow> if GetErrorCode resp = ErrorCode_SUCCEEDED then Verified else Refused)"
| "handshake_step env p c h = h"

text \<open>The calls still to be read, after the prefix \<open>p\<close> already read.\<close>
fun handshake_run :: "env \<Rightarrow> call list \<Rightarrow> call list \<Rightarrow> handshake \<Rightarrow> handshake" where
  "handshake_run env p [] h = h"
| "handshake_run env p (c # cs) h = handshake_run env (p @ [c]) cs (handshake_step env (p @ [c]) c h)"

definition handshake_of :: "env \<Rightarrow> call list \<Rightarrow> handshake" where
  "handshake_of env tr = handshake_run env [] tr NotVerified"

text \<open>
  The states a connection is found in between two calls of its methods: closed, or open
  with the handshake verified, or open after a handshake the server refused.
\<close>
definition settled :: "env \<Rightarrow> connection \<Rightarrow> call list \<Rightarrow> bool" where
  "settled env cn tr =
     (\<not> is_open cn \<or> handshake_of env tr = Verified \<or> handshake_of env tr = Refused)"

subsection \<open>Sequences of method calls\<close>

text \<open>
  The methods of \<^verbatim>\<open>connection\<close> with their arguments, and a run of a list of them, one after
  the other on the connection the one before left, the results dropped. A panic ends the
  run.
\<close>
datatype op =
    Op_open HostAddress Duration "tls_Config option" bool "http_Header option" string
  | Op_verifyClientVersion
  | Op_reopen
  | Op_authenticate string string
  | Op_execute int string
  | Op_executeWithParameter int string params
  | Op_executeWithParameterTimeout int string params int
  | Op_executeJson int string
  | Op_ExecuteJsonWithParameter int string params
  | Op_ping
  | Op_signOut int
  | Op_release Time
  | Op_close

fun forget :: "'a outcome \<Rightarrow> unit outcome" where
  "forget Panic = Panic"
| "forget (Return r cn tr) = Return () cn tr"

fun run_op :: "env \<Rightarrow> op \<Rightarrow> connection \<Rightarrow> call list \<Rightarrow> unit outcome" where
  "run_op env (Op_open a t s h2 hh k) cn tr = forget (open env a t s h2 hh k cn tr)"
| "run_op env Op_verifyClientVersion cn tr = forget (verifyClientVersion env cn tr)"
| "run_op env Op_reopen cn tr = forget (reopen env cn tr)"
| "run_op env (Op_authenticate u p) cn tr = forget (authenticate env u p cn tr)"
| "run_op env (Op_execute sid stmt) cn tr = forget (execute env sid stmt cn tr)"
| "run_op env (Op_executeWithParameter sid stmt ps) cn tr =
     forget (executeWithParameter env sid stmt ps cn tr)"
| "run_op env (Op_executeWithParameterTimeout sid stmt ps ms) cn tr =
     forget (executeWithParameterTimeout env sid stmt ps ms cn tr)"
| "run_op env (Op_executeJson sid stmt) cn tr = forget (executeJson env sid stmt cn tr)"
| "run_op env (Op_ExecuteJsonWithParameter sid stmt ps) cn tr =
     forget (ExecuteJsonWithParameter env sid stmt ps cn tr)"
| "run_op env Op_ping cn tr = forget (ping env cn tr)"
| "run_op env (Op_signOut sid) cn tr = forget (signOut env sid cn tr)"
| "run_op env (Op_release now) cn tr = forget (release now cn tr)"
| "run_op env Op_close cn tr = forget (close env cn tr)"

fun run_ops :: "env \<Rightarrow> op list \<Rightarrow> connection \<Rightarrow> call list \<Rightarrow> unit outcome" where
  "run_ops env [] cn tr = Return () cn tr"
| "run_ops env (x # xs) cn tr =
     (case run_op env x cn tr of
        Panic \<Rightarrow> Panic
      | Return u cn' tr' \<Rightarrow> run_ops env xs cn' tr')"

section \<open>Example environments and connections\<close>

definition a1 :: HostAddress where
  "a1 = \<lparr>Host = ''127.0.0.1'', Port = 9669\<rparr>"

text \<open>A server that accepts everything.\<close>
definition ok_env :: env where
  "ok_env =
     \<lparr>new_transport_err = (\<lambda>tr. None), open_err = (\<lambda>tr. None), is_open_res = (\<lambda>tr. True),
      close_err = (\<lambda>tr. None),
      verify_res = (\<lambda>tr. Inr \<lparr>GetErrorCode = 0, GetErrorMsg = []\<rparr>),
      auth_res = (\<lambda>tr. Inr (AuthResponse 0 [] (Some 7))),
      exec_res = (\<lambda>tr. Inr (ExecutionResponse 0 [])),
      exec_timeout_res = (\<lambda>tr. Inr (ExecutionResponse 0 [])),
      exec_json_res = (\<lambda>tr. Inr ''{}''),
      signout_err = (\<lambda>tr. None)\<rparr>"

text \<open>A server that answers the handshake with an error code and a message.\<close>
definition reject_env :: env where
  "reject_env =
     ok_env\<lparr>verify_res := (\<lambda>tr. Inr \<lparr>GetErrorCode = - 1001, GetErrorMsg = ''bad key''\<rparr>)\<rparr>"

text \<open>A transport on which the handshake RPC itself fails.\<close>
definition verify_fail_env :: env where
  "verify_fail_env = ok_env\<lparr>verify_res := (\<lambda>tr. Inl (PlainError ''EOF''))\<rparr>"

text \<open>A transport on which both the authentication RPC and the close fail.\<close>
definition auth_fail_env :: env where
  "auth_fail_env =
     ok_env\<lparr>auth_res := (\<lambda>tr. Inl (PlainError ''EOF'')),
            close_err := (\<lambda>tr. Some (PlainError ''broken pipe''))\<rparr>"

text \<open>A transport on which the first call, and only the first, times out.\<close>
definition timeout_env :: env where
  "timeout_env =
     ok_env\<lparr>exec_json_res :=
              (\<lambda>tr. if length tr = 1 then Inl (TransportException 3 ''i/o timeout'')
                     else Inr ''{}'')\<rparr>"

text \<open>The stub and the connection that a plain \<^verbatim>\<open>open\<close> to \<open>a1\<close> leaves behind.\<close>
definition plain_stub :: GraphServiceClient where
  "plain_stub =
     \<lparr>Trans = HeaderTransport (BufferedTransport 131072 (Socket ''127.0.0.1:9669'' 1000)),
      Proto = HeaderProtocolFactory, opened = True\<rparr>"

definition open_cn :: connection where
  "open_cn =
     \<lparr>severAddress = a1, timeout = 1000, returnedAt = 0, sslConfig = None, useHTTP2 = False,
      httpHeader = None, handshakeKey = [], graph = Some plain_stub\<rparr>"

text \<open>The connection that an \<^verbatim>\<open>open\<close> to \<open>a1\<close> with the TLS config \<open>5\<close> leaves behind.\<close>
definition tls_cn :: connection where
  "tls_cn =
     open_cn\<lparr>graph := Some (plain_stub\<lparr>Trans :=
        HeaderTransport (BufferedTransport 131072 (SSLSocket ''127.0.0.1:9669'' 5 1000))\<rparr>)\<rparr>"

text \<open>A header map with a two-valued key, a \<^verbatim>\<open>Content-Type\<close> and a key without values.\<close>
definition h1 :: http_Header where
  "h1 = [(''Authorization'', [''a'', ''b'']), (''Content-Type'', [''text/plain'']), (''X-Empty'', [])]"

text \<open>The calls of a plain \<^verbatim>\<open>open\<close> to \<open>a1\<close>.\<close>
definition tr4 :: "call list" where
  "tr4 = [Call_NewSocket ''127.0.0.1:9669'' 1000, Call_Open, Call_IsOpen,
          Call_VerifyClientVersion None]"

text \<open>A host on which a transport can be constructed once, and never again.\<close>
definition second_ctor_fail_env :: env where
  "second_ctor_fail_env =
     ok_env\<lparr>new_transport_err :=
              (\<lambda>tr. if length tr = 1 then None else Some (PlainError ''connection refused''))\<rparr>"

text \<open>A server that answers the first handshake; every later handshake RPC fails.\<close>
definition second_verify_fail_env :: env where
  "second_verify_fail_env =
     ok_env\<lparr>verify_res :=
              (\<lambda>tr. if length tr = 4 then Inr \<lparr>GetErrorCode = 0, GetErrorMsg = []\<rparr>
                     else Inl (PlainError ''EOF''))\<rparr>"

section \<open>Auxiliary facts\<close>

subsection \<open>The header loops\<close>

lemma set_values_eq:
  "set_values k vv (HTTPClient url tls hs) tr =
     (HTTPClient url tls (hs @ map (Pair k) vv), tr @ map (Call_SetHeader k) vv)"
  by (induction vv arbitrary: hs tr) auto

lemma set_headers_eq:
  "set_headers h (HTTPClient url tls hs) tr =
     (HTTPClient url tls (hs @ spec_header_pairs h),
      tr @ map (\<lambda>(k, v). Call_SetHeader k v) (spec_header_pairs h))"
  by (induction h arbitrary: hs tr) (auto simp: spec_header_pairs_def set_values_eq)

lemma close_Some:
  "graph cn = Some g \<Longrightarrow>
   close env cn tr = Return () (cn\<lparr>graph := Some (g\<lparr>opened := False\<rparr>)\<rparr>) (tr @ [Call_Close])"
  by (simp add: close_def graph_Close_def Let_def)

lemma verifyClientVersion_Some:
  "graph cn = Some g \<Longrightarrow>
   verifyClientVersion env cn tr =
     (let tr1 = tr @ [Call_VerifyClientVersion (handshake_req cn)] in
      case verify_res env tr1 of
        Inl e \<Rightarrow>
          Return (Some (Errorf (''failed to verify client handshakeKey: '' @ Error e)))
            (cn\<lparr>graph := Some (g\<lparr>opened := False\<rparr>)\<rparr>) (tr1 @ [Call_Close])
      | Inr resp \<Rightarrow>
          if GetErrorCode resp \<noteq> ErrorCode_SUCCEEDED
          then Return (Some (Errorf (''incompatible handshakeKey between client and server: ''
                                     @ GetErrorMsg resp))) cn tr1
          else Return None cn tr1)"
  by (simp add: verifyClientVersion_def graph_VerifyClientVersion_def close_Some Let_def
           split: sum.splits)

text \<open>What \<open>open_graph\<close> does, as one case tree over the environment's answers.\<close>
lemma open_graph_eq:
  "open_graph env t pf cn tr =
     (let g = \<lparr>Trans = t, Proto = pf, opened = False\<rparr>;
          tr1 = tr @ [Call_Open]; tr2 = tr1 @ [Call_IsOpen];
          tr3 = tr2 @ [Call_VerifyClientVersion (handshake_req cn)]
      in
      case open_err env tr1 of
        Some e \<Rightarrow> Return (Some (Errorf (''failed to open transport, error: '' @ Error e)))
                    (cn\<lparr>graph := Some g\<rparr>) tr1
      | None \<Rightarrow>
          if \<not> is_open_res env tr2
          then Return (Some (Errorf ''transport is off'')) (cn\<lparr>graph := Some g\<rparr>) tr2
          else (case verify_res env tr3 of
                  Inl e \<Rightarrow>
                    Return (Some (Errorf (''failed to verify client handshakeKey: '' @ Error e)))
                      (cn\<lparr>graph := Some g\<rparr>) (tr3 @ [Call_Close])
                | Inr resp \<Rightarrow>
                    if GetErrorCode resp \<noteq> ErrorCode_SUCCEEDED
                    then Return (Some (Errorf (''incompatible handshakeKey between client and server: ''
                                     @ GetErrorMsg resp))) (cn\<lparr>graph := Some (g\<lparr>opened := True\<rparr>)\<rparr>) tr3
                    else Return None (cn\<lparr>graph := Some (g\<lparr>opened := True\<rparr>)\<rparr>) tr3))"
  by (simp add: open_graph_def graph_Open_def graph_IsOpen_def NewGraphServiceClientFactory_def
        verifyClientVersion_Some Let_def handshake_req_def split: option.splits sum.splits)


lemma filter_SetHeader_calls:
  "filter is_new_transport (map (\<lambda>(k, v). Call_SetHeader k v) ps) = []"
  "filter is_exec_json (map (\<lambda>(k, v). Call_SetHeader k v) ps) = []"
  "filter is_set_header (map (\<lambda>(k, v). Call_SetHeader k v) ps) = map (\<lambda>(k, v). Call_SetHeader k v) ps"
  by (induction ps) auto


lemma open_graph_cases:
  "case open_graph env t pf cn tr of
     Panic \<Rightarrow> False
   | Return err cn' tr' \<Rightarrow>
       take (length tr) tr' = tr \<and>
       filter is_new_transport (drop (length tr) tr') = [] \<and>
       filter is_exec_json (drop (length tr) tr') = [] \<and>
       filter is_set_header (drop (length tr) tr') = [] \<and>
       map_option Trans (graph cn') = Some t \<and> map_option Proto (graph cn') = Some pf \<and>
       (err = None \<longrightarrow> is_open cn' \<and> handshaked env tr') \<and>
       (err \<noteq> None \<and> \<not> rejected env tr' \<longrightarrow> \<not> is_open cn')"
  by (simp add: open_graph_eq Let_def is_open_def handshaked_def rejected_def
        split: option.splits sum.splits)



lemma take_drop_prefix:
  assumes "take (length (tr @ pre)) tr' = tr @ pre"
  shows "take (length tr) tr' = tr" and "drop (length tr) tr' = pre @ drop (length (tr @ pre)) tr'"
proof -
  define R where "R = drop (length (tr @ pre)) tr'"
  have e: "tr' = tr @ pre @ R"
    using assms append_take_drop_id[of "length (tr @ pre)" tr'] by (simp add: R_def)
  show "take (length tr) tr' = tr" by (subst e) simp
  have "drop (length tr) tr' = pre @ R" by (subst e) simp
  then show "drop (length tr) tr' = pre @ drop (length (tr @ pre)) tr'" by (simp add: R_def)
qed

lemma open_graph_after:
  assumes "length (filter is_new_transport pre) = 1" and "filter is_exec_json pre = []"
  shows "case open_graph env tp pf cn1 (tr @ pre) of
     Panic \<Rightarrow> False
   | Return err cn' tr' \<Rightarrow>
       take (length tr) tr' = tr \<and>
       length (filter is_new_transport (drop (length tr) tr')) = 1 \<and>
       filter is_exec_json (drop (length tr) tr') = [] \<and>
       (err = None \<longrightarrow> graph cn' \<noteq> None \<and> is_open cn' \<and> handshaked env tr') \<and>
       (err \<noteq> None \<and> \<not> rejected env tr' \<and> B \<longrightarrow> \<not> is_open cn')"
proof (cases "open_graph env tp pf cn1 (tr @ pre)")
  case Panic
  then show ?thesis using open_graph_cases[where env=env and t=tp and pf=pf and cn=cn1 and tr="tr @ pre"] by simp
next
  case (Return err cn' tr')
  with open_graph_cases[where env=env and t=tp and pf=pf and cn=cn1 and tr="tr @ pre"]
  have p: "take (length (tr @ pre)) tr' = tr @ pre"
    "filter is_new_transport (drop (length (tr @ pre)) tr') = []"
    "filter is_exec_json (drop (length (tr @ pre)) tr') = []"
    "map_option Trans (graph cn') = Some tp"
    "err = None \<longrightarrow> is_open cn' \<and> handshaked env tr'"
    "err \<noteq> None \<and> \<not> rejected env tr' \<longrightarrow> \<not> is_open cn'"
    by simp_all
  from p(4) have g: "graph cn' \<noteq> None" by auto
  show ?thesis
    using Return p(2,3,5,6) g assms take_drop_prefix[OF p(1)] by simp
qed

lemma open_cases:
  "case open env a t s h2 hh k cn tr of
     Panic \<Rightarrow> False
   | Return err cn' tr' \<Rightarrow>
       take (length tr) tr' = tr \<and>
       length (filter is_new_transport (drop (length tr) tr')) = 1 \<and>
       filter is_exec_json (drop (length tr) tr') = [] \<and>
       (err = None \<longrightarrow> graph cn' \<noteq> None \<and> is_open cn' \<and> handshaked env tr') \<and>
       (err \<noteq> None \<and> \<not> rejected env tr' \<and> \<not> is_open cn \<longrightarrow> \<not> is_open cn')"
  unfolding open_def Let_def NewHTTPPostClientWithOptions_def NewSSLSocketTimeout_def NewSocket_def
  by (auto split: option.splits simp: set_headers_eq filter_SetHeader_calls is_open_def
        intro!: open_graph_after[where pre="[c]" for c, simplified]
                open_graph_after[where pre="c # cs" for c cs, simplified])

lemma newAdd_a1: "JoinHostPort (Host a1) (Itoa (Port a1)) = ''127.0.0.1:9669''"
  by (simp add: a1_def JoinHostPort_def Itoa_def nat_digits.simps digit_char_def)

text \<open>The facts that evaluate \<^verbatim>\<open>open\<close> on a concrete input.\<close>
lemmas open_eval =
  open_def Let_def NewHTTPPostClientWithOptions_def NewSSLSocketTimeout_def NewSocket_def
  open_graph_eq set_headers_eq newAdd_a1 handshake_req_def Errorf_def ErrorCode_SUCCEEDED_def

subsection \<open>reopen\<close>

lemma reopen_Some:
  "graph cn = Some g \<Longrightarrow>
   reopen env cn tr =
     open env (severAddress cn) (timeout cn) (sslConfig cn) (useHTTP2 cn) (httpHeader cn)
       (handshakeKey cn) (cn\<lparr>graph := Some (g\<lparr>opened := False\<rparr>)\<rparr>) (tr @ [Call_Close])"
  by (simp add: reopen_def close_Some)

lemma reopen_cases:
  assumes "graph cn = Some g"
  shows "case reopen env cn tr of
     Panic \<Rightarrow> False
   | Return err cn' tr' \<Rightarrow>
       take (length tr) tr' = tr \<and>
       length (filter is_new_transport (drop (length tr) tr')) = 1 \<and>
       filter is_exec_json (drop (length tr) tr') = [] \<and>
       (err = None \<longrightarrow> graph cn' \<noteq> None)"
proof (cases "reopen env cn tr")
  case Panic
  then show ?thesis
    using open_cases[where env=env and a="severAddress cn" and t="timeout cn" and s="sslConfig cn"
        and ?h2.0="useHTTP2 cn" and hh="httpHeader cn" and k="handshakeKey cn"
        and cn="cn\<lparr>graph := Some (g\<lparr>opened := False\<rparr>)\<rparr>" and tr="tr @ [Call_Close]"]
    by (simp add: reopen_Some[OF assms])
next
  case (Return err cn' tr')
  with open_cases[where env=env and a="severAddress cn" and t="timeout cn" and s="sslConfig cn"
        and ?h2.0="useHTTP2 cn" and hh="httpHeader cn" and k="handshakeKey cn"
        and cn="cn\<lparr>graph := Some (g\<lparr>opened := False\<rparr>)\<rparr>" and tr="tr @ [Call_Close]"]
  have p: "take (length (tr @ [Call_Close])) tr' = tr @ [Call_Close]"
    "length (filter is_new_transport (drop (length (tr @ [Call_Close])) tr')) = 1"
    "filter is_exec_json (drop (length (tr @ [Call_Close])) tr') = []"
    "err = None \<longrightarrow> graph cn' \<noteq> None"
    by (simp_all add: reopen_Some[OF assms])
  show ?thesis
    using Return p(2,3,4) take_drop_prefix[OF p(1)] by simp
qed

lemma open_graph_ex:
  "\<exists>err cn' ext g'. open_graph env t pf cn tr = Return err cn' (tr @ ext) \<and>
     filter is_set_header ext = [] \<and> graph cn' = Some g' \<and> Trans g' = t"
proof (cases "open_graph env t pf cn tr")
  case Panic
  then show ?thesis using open_graph_cases[where env=env and t=t and pf=pf and cn=cn and tr=tr] by simp
next
  case (Return err cn' tr')
  with open_graph_cases[where env=env and t=t and pf=pf and cn=cn and tr=tr]
  have p: "take (length tr) tr' = tr" "filter is_set_header (drop (length tr) tr') = []"
    "map_option Trans (graph cn') = Some t"
    by simp_all
  have "tr' = tr @ drop (length tr) tr'"
    using p(1) append_take_drop_id[of "length tr" tr'] by simp
  moreover obtain g' where "graph cn' = Some g'" "Trans g' = t" using p(3) by auto
  ultimately show ?thesis using Return p(2) by metis
qed

lemma spec_header_pairs_key:
  "map snd (filter (\<lambda>p. fst p = key) (spec_header_pairs h)) =
     (if key = ''Content-Type'' then [] else concat (map snd (filter (\<lambda>p. fst p = key) h)))"
  by (induction h) (auto simp: spec_header_pairs_def filter_map comp_def)

text \<open>\<^verbatim>\<open>open\<close> assigns three fields of the connection and the stub, and no other field.\<close>
lemma open_graph_fields:
  "case open_graph env tp pf cn tr of
     Panic \<Rightarrow> False
   | Return err cn' tr' \<Rightarrow>
       severAddress cn' = severAddress cn \<and> sslConfig cn' = sslConfig cn \<and>
       httpHeader cn' = httpHeader cn \<and> returnedAt cn' = returnedAt cn \<and>
       timeout cn' = timeout cn \<and> useHTTP2 cn' = useHTTP2 cn \<and>
       handshakeKey cn' = handshakeKey cn"
  by (simp add: open_graph_eq Let_def split: option.splits sum.splits)

lemma open_graph_fields_from:
  assumes "severAddress cn1 = sa" "sslConfig cn1 = sc" "httpHeader cn1 = hh0"
    "returnedAt cn1 = ra" "timeout cn1 = t" "useHTTP2 cn1 = h2" "handshakeKey cn1 = k"
  shows "case open_graph env tp pf cn1 tr of
     Panic \<Rightarrow> False
   | Return err cn' tr' \<Rightarrow>
       severAddress cn' = sa \<and> sslConfig cn' = sc \<and> httpHeader cn' = hh0 \<and>
       returnedAt cn' = ra \<and> timeout cn' = t \<and> useHTTP2 cn' = h2 \<and> handshakeKey cn' = k"
  using assms open_graph_fields[where env=env and tp=tp and pf=pf and cn=cn1 and tr=tr]
  by (cases "open_graph env tp pf cn1 tr") simp_all

lemma open_keeps_unassigned_fields:
  "case open env a t s h2 hh k cn tr of
     Panic \<Rightarrow> False
   | Return err cn' tr' \<Rightarrow>
       severAddress cn' = severAddress cn \<and> sslConfig cn' = sslConfig cn \<and>
       httpHeader cn' = httpHeader cn \<and> returnedAt cn' = returnedAt cn \<and>
       timeout cn' = t \<and> useHTTP2 cn' = h2 \<and> handshakeKey cn' = k"
  unfolding open_def Let_def NewHTTPPostClientWithOptions_def NewSSLSocketTimeout_def NewSocket_def
  by (auto split: option.splits simp: set_headers_eq intro!: open_graph_fields_from)

subsection \<open>The handshake state along the methods\<close>

lemma handshake_run_append:
  "handshake_run env p (xs @ ys) h = handshake_run env (p @ xs) ys (handshake_run env p xs h)"
  by (induction xs arbitrary: p h) auto

lemma handshake_of_append:
  "handshake_of env (tr @ ext) = handshake_run env tr ext (handshake_of env tr)"
  by (simp add: handshake_of_def handshake_run_append)

lemma handshake_run_SetHeader:
  "handshake_run env p (map (\<lambda>(k, v). Call_SetHeader k v) ps) h = h"
  by (induction ps arbitrary: p) auto

lemma open_graph_settled:
  "case open_graph env t pf cn tr of
     Panic \<Rightarrow> False
   | Return err cn' tr' \<Rightarrow> settled env cn' tr'"
  by (simp add: open_graph_eq Let_def settled_def is_open_def handshake_of_append
        split: option.splits sum.splits)

lemma open_graph_error:
  "case open_graph env t pf cn tr of
     Panic \<Rightarrow> False
   | Return err cn' tr' \<Rightarrow>
       (err \<noteq> None \<and> \<not> rejected env tr' \<longrightarrow>
          G cn' \<or> (\<not> is_open cn' \<and>
                (last tr' = Call_Open \<or> last tr' = Call_IsOpen \<or> last tr' = Call_Close)))"
  by (simp add: open_graph_eq Let_def is_open_def rejected_def
        split: option.splits sum.splits)

lemma settled_ctor_fail:
  assumes "settled env cn tr" and "is_new_transport c"
  shows "settled env (cn\<lparr>timeout := t, useHTTP2 := h2, handshakeKey := k\<rparr>) (tr @ [c])"
  using assms by (cases c) (simp_all add: settled_def is_open_def handshake_of_append)

lemma open_settled:
  assumes "settled env cn tr"
  shows "case open env a t s h2 hh k cn tr of
     Panic \<Rightarrow> False
   | Return err cn' tr' \<Rightarrow> settled env cn' tr'"
  unfolding open_def Let_def NewHTTPPostClientWithOptions_def NewSSLSocketTimeout_def NewSocket_def
  by (auto split: option.splits simp: set_headers_eq
        intro!: open_graph_settled settled_ctor_fail[OF assms])

lemma open_error:
  "case open env a t s h2 hh k cn tr of
     Panic \<Rightarrow> False
   | Return err cn' tr' \<Rightarrow>
       (err \<noteq> None \<and> \<not> rejected env tr' \<longrightarrow>
          graph cn' = graph cn \<or>
          (\<not> is_open cn' \<and>
             (last tr' = Call_Open \<or> last tr' = Call_IsOpen \<or> last tr' = Call_Close)))"
  unfolding open_def Let_def NewHTTPPostClientWithOptions_def NewSSLSocketTimeout_def NewSocket_def
  by (auto split: option.splits simp: set_headers_eq intro!: open_graph_error)

lemma open_graph_verified:
  "case open_graph env t pf cn tr of
     Panic \<Rightarrow> False
   | Return err cn' tr' \<Rightarrow> (err = None \<longrightarrow> handshake_of env tr' = Verified)"
  by (simp add: open_graph_eq Let_def handshake_of_append split: option.splits sum.splits)

lemma open_verified:
  "case open env a t s h2 hh k cn tr of
     Panic \<Rightarrow> False
   | Return err cn' tr' \<Rightarrow> (err = None \<longrightarrow> handshake_of env tr' = Verified)"
  unfolding open_def Let_def NewHTTPPostClientWithOptions_def NewSSLSocketTimeout_def NewSocket_def
  by (auto split: option.splits simp: set_headers_eq intro!: open_graph_verified)

lemma settled_closed: "\<not> is_open cn \<Longrightarrow> settled env cn tr"
  by (simp add: settled_def)

lemma settled_snoc:
  assumes "settled env cn tr" and "\<not> is_verify_call c" and "c \<noteq> Call_Open" and "c \<noteq> Call_Close"
  shows "settled env cn (tr @ [c])"
  using assms by (cases c) (simp_all add: settled_def handshake_of_append)

lemma reopen_settled:
  assumes "graph cn = Some g"
  shows "case reopen env cn tr of
     Panic \<Rightarrow> False
   | Return err cn' tr' \<Rightarrow> settled env cn' tr'"
proof -
  have "settled env (cn\<lparr>graph := Some (g\<lparr>opened := False\<rparr>)\<rparr>) (tr @ [Call_Close])"
    by (rule settled_closed) (simp add: is_open_def)
  then show ?thesis
    by (simp add: reopen_Some[OF assms] open_settled)
qed

lemma verifyClientVersion_settled:
  assumes "settled env cn tr" and "verifyClientVersion env cn tr = Return r cn' tr'"
  shows "settled env cn' tr'"
proof (cases "graph cn")
  case None
  with assms(2) show ?thesis by (simp add: verifyClientVersion_def)
next
  case (Some g)
  with assms show ?thesis
    by (auto simp: verifyClientVersion_Some Let_def settled_def is_open_def handshake_of_append
          split: sum.splits if_splits)
qed

lemma authenticate_settled:
  assumes "settled env cn tr" and "authenticate env u p cn tr = Return r cn' tr'"
  shows "settled env cn' tr'"
proof (cases "graph cn")
  case None
  with assms(2) show ?thesis by (simp add: authenticate_def)
next
  case (Some g)
  with assms show ?thesis
    by (auto simp: authenticate_def graph_Authenticate_def graph_Close_def Let_def settled_def
          is_open_def handshake_of_append split: sum.splits option.splits)
qed

lemma executeWithParameter_settled:
  assumes "settled env cn tr" and "executeWithParameter env sid stmt ps cn tr = Return r cn' tr'"
  shows "settled env cn' tr'"
proof (cases "graph cn")
  case None
  with assms(2) show ?thesis by (simp add: executeWithParameter_def)
next
  case (Some g)
  with assms(2) have "cn' = cn" "tr' = tr @ [Call_ExecuteWithParameter sid stmt ps]"
    by (auto simp: executeWithParameter_def graph_ExecuteWithParameter_def Let_def
          split: sum.splits)
  then show ?thesis using settled_snoc[OF assms(1)] by simp
qed

lemma executeWithParameterTimeout_settled:
  assumes "settled env cn tr"
    and "executeWithParameterTimeout env sid stmt ps ms cn tr = Return r cn' tr'"
  shows "settled env cn' tr'"
proof (cases "graph cn")
  case None
  with assms(2) show ?thesis by (simp add: executeWithParameterTimeout_def)
next
  case (Some g)
  with assms(2) have "cn' = cn" "tr' = tr @ [Call_ExecuteWithTimeout sid stmt ps ms]"
    by (auto simp: executeWithParameterTimeout_def graph_ExecuteWithTimeout_def Let_def)
  then show ?thesis using settled_snoc[OF assms(1)] by simp
qed

lemma signOut_settled:
  assumes "settled env cn tr" and "signOut env sid cn tr = Return r cn' tr'"
  shows "settled env cn' tr'"
proof (cases "graph cn")
  case None
  with assms(2) show ?thesis by (simp add: signOut_def)
next
  case (Some g)
  with assms(2) have "cn' = cn" "tr' = tr @ [Call_Signout sid]"
    by (auto simp: signOut_def graph_Signout_def Let_def)
  then show ?thesis using settled_snoc[OF assms(1)] by simp
qed

lemma close_settled:
  assumes "close env cn tr = Return r cn' tr'"
  shows "settled env cn' tr'"
proof (cases "graph cn")
  case None
  with assms show ?thesis by (simp add: close_def)
next
  case (Some g)
  with assms show ?thesis by (auto simp: close_Some settled_def is_open_def)
qed

lemma ExecuteJsonWithParameter_settled:
  assumes "settled env cn tr"
    and "ExecuteJsonWithParameter env sid stmt ps cn tr = Return r cn' tr'"
  shows "settled env cn' tr'"
proof (cases "graph cn")
  case None
  with assms(2) show ?thesis by (simp add: ExecuteJsonWithParameter_def)
next
  case (Some g)
  let ?c = "Call_ExecuteJsonWithParameter sid stmt ps"
  have s1: "settled env cn (tr @ [?c])" using settled_snoc[OF assms(1)] by simp
  show ?thesis
  proof (cases "reopen env cn (tr @ [?c])")
    case Panic
    then show ?thesis using reopen_settled[OF Some, where env=env and tr="tr @ [?c]"] by simp
  next
    case (Return ro cn2 tr2)
    with reopen_settled[OF Some, where env=env and tr="tr @ [?c]"]
    have s2: "settled env cn2 tr2" by simp
    have s3: "settled env cn2 (tr2 @ [?c])" using settled_snoc[OF s2] by simp
    show ?thesis
      using assms(2) Some Return s1 s2 s3
      by (auto simp: ExecuteJsonWithParameter_def graph_ExecuteJsonWithParameter_def Let_def
            split: sum.splits error.splits if_splits option.splits)
  qed
qed

lemma run_op_settled:
  assumes "settled env cn tr" and "run_op env x cn tr = Return () cn' tr'"
  shows "settled env cn' tr'"
proof (cases x)
  case (Op_open a t s h2 hh k)
  with assms(2) open_settled[OF assms(1), where a=a and t=t and s=s and ?h2.0=h2 and hh=hh and k=k]
  show ?thesis by (cases "open env a t s h2 hh k cn tr") simp_all
next
  case Op_verifyClientVersion
  with assms show ?thesis
    by (cases "verifyClientVersion env cn tr") (auto dest: verifyClientVersion_settled)
next
  case Op_reopen
  show ?thesis
  proof (cases "graph cn")
    case None
    with assms(2) Op_reopen show ?thesis by (simp add: reopen_def close_def)
  next
    case (Some g)
    with assms(2) Op_reopen reopen_settled[OF Some, where env=env and tr=tr]
    show ?thesis by (cases "reopen env cn tr") simp_all
  qed
next
  case (Op_authenticate u p)
  with assms show ?thesis
    by (cases "authenticate env u p cn tr") (auto dest: authenticate_settled)
next
  case (Op_execute sid stmt)
  with assms show ?thesis
    by (cases "execute env sid stmt cn tr")
       (auto simp: execute_def dest: executeWithParameter_settled)
next
  case (Op_executeWithParameter sid stmt ps)
  with assms show ?thesis
    by (cases "executeWithParameter env sid stmt ps cn tr")
       (auto dest: executeWithParameter_settled)
next
  case (Op_executeWithParameterTimeout sid stmt ps ms)
  with assms show ?thesis
    by (cases "executeWithParameterTimeout env sid stmt ps ms cn tr")
       (auto dest: executeWithParameterTimeout_settled)
next
  case (Op_executeJson sid stmt)
  with assms show ?thesis
    by (cases "executeJson env sid stmt cn tr")
       (auto simp: executeJson_def dest: ExecuteJsonWithParameter_settled)
next
  case (Op_ExecuteJsonWithParameter sid stmt ps)
  with assms show ?thesis
    by (cases "ExecuteJsonWithParameter env sid stmt ps cn tr")
       (auto dest: ExecuteJsonWithParameter_settled)
next
  case Op_ping
  with assms show ?thesis
    by (cases "execute env 0 ''YIELD 1'' cn tr")
       (auto simp: ping_def execute_def dest: executeWithParameter_settled)
next
  case (Op_signOut sid)
  with assms show ?thesis
    by (cases "signOut env sid cn tr") (auto dest: signOut_settled)
next
  case (Op_release now)
  with assms show ?thesis by (auto simp: release_def settled_def is_open_def)
next
  case Op_close
  with assms(2) show ?thesis
    by (cases "close env cn tr") (auto dest: close_settled)
qed

lemma run_ops_settled:
  "settled env cn tr \<Longrightarrow> run_ops env xs cn tr = Return () cn' tr' \<Longrightarrow> settled env cn' tr'"
proof (induction xs arbitrary: cn tr)
  case Nil
  then show ?case by simp
next
  case (Cons x xs)
  then show ?case
    by (cases "run_op env x cn tr") (auto dest: run_op_settled)
qed

lemma newConnection_settled: "settled env (newConnection now addr) []"
  by (simp add: settled_def is_open_def newConnection_def)

section \<open>The claims\<close>

subsection \<open>release\<close>

text \<open>
  Claim C9. For every connection state, \<^verbatim>\<open>release()\<close> makes no transport call (the history
  of calls is returned as it was) and changes only \<open>returnedAt\<close>: the address, timeout, TLS
  config, transport variant, headers, handshake key and transport handle stay as they were.
\<close>
theorem release_only_returnedAt:
  "\<exists>cn'. release now cn tr = Return () cn' tr \<and> returnedAt cn' = now \<and>
     severAddress cn' = severAddress cn \<and> timeout cn' = timeout cn \<and>
     sslConfig cn' = sslConfig cn \<and> useHTTP2 cn' = useHTTP2 cn \<and>
     httpHeader cn' = httpHeader cn \<and> handshakeKey cn' = handshakeKey cn \<and>
     graph cn' = graph cn"
  by (simp add: release_def)

subsection \<open>execute and ping\<close>

text \<open>
  Claim C7. For every session id and statement, \<^verbatim>\<open>execute(sessionID, stmt)\<close> returns exactly
  what \<^verbatim>\<open>executeWithParameter(sessionID, stmt, {})\<close> returns with the empty parameter map:
  the same response, error, connection and calls.
\<close>
theorem execute_is_executeWithParameter_empty:
  "execute env sessionID stmt cn tr = executeWithParameter env sessionID stmt [] cn tr"
  by (simp add: execute_def)

text \<open>
  Claim C6. For every connection state, \<^verbatim>\<open>ping()\<close> returns true exactly when
  \<^verbatim>\<open>execute(0, "YIELD 1")\<close> on that state returns no error, and false when it returns an
  error: the error is never passed on. \<^verbatim>\<open>ping\<close> adds no failure of its own: it panics only
  on the \<^verbatim>\<open>nil\<close> stub, where \<^verbatim>\<open>execute\<close> panics too.
\<close>
theorem ping_iff_execute_ok:
  "(case execute env 0 ''YIELD 1'' cn tr of
      Panic \<Rightarrow> ping env cn tr = Panic
    | Return (r, err) cn' tr' \<Rightarrow> ping env cn tr = Return (err = None) cn' tr') \<and>
   (ping env cn tr = Panic) = (graph cn = None)"
  by (cases "graph cn")
     (auto simp: ping_def execute_def executeWithParameter_def graph_ExecuteWithParameter_def
        Let_def split: sum.splits)

subsection \<open>The nil stub\<close>


subsection \<open>authenticate\<close>

text \<open>
  Claim C5. For every call of \<^verbatim>\<open>authenticate(username, password)\<close> whose RPC fails: the
  transport close is attempted (it is the one call made after the RPC); if the close
  succeeds the returned error wraps the authentication failure, and if the close fails the
  returned error is the close failure alone, the authentication error being discarded; the
  returned response is \<^verbatim>\<open>nil\<close> either way.
\<close>
theorem authenticate_rpc_failure:
  assumes "graph cn = Some g"
    and "auth_res env (tr @ [Call_Authenticate username password]) = Inl e"
  shows "authenticate env username password cn tr =
     Return (None,
             Some (case close_err env (tr @ [Call_Authenticate username password, Call_Close]) of
                     None \<Rightarrow> Errorf (''authentication fails, '' @ Error e)
                   | Some ce \<Rightarrow> Errorf (''fail to close transport, error: '' @ Error ce)))
       (cn\<lparr>graph := Some (g\<lparr>opened := False\<rparr>)\<rparr>)
       (tr @ [Call_Authenticate username password, Call_Close])"
  using assms
  by (simp add: authenticate_def graph_Authenticate_def graph_Close_def Let_def
        split: option.splits)

theorem authenticate_rpc_failure_witness:
  "graph open_cn = Some plain_stub \<and>
   auth_res auth_fail_env ([] @ [Call_Authenticate ''root'' ''nebula'']) = Inl (PlainError ''EOF'') \<and>
   authenticate auth_fail_env ''root'' ''nebula'' open_cn [] =
     Return (None, Some (PlainError ''fail to close transport, error: broken pipe''))
       (open_cn\<lparr>graph := Some (plain_stub\<lparr>opened := False\<rparr>)\<rparr>)
       [Call_Authenticate ''root'' ''nebula'', Call_Close]"
proof -
  have h1: "graph open_cn = Some plain_stub" by (simp add: open_cn_def)
  have h2: "auth_res auth_fail_env ([] @ [Call_Authenticate ''root'' ''nebula'']) = Inl (PlainError ''EOF'')"
    by (simp add: auth_fail_env_def)
  show ?thesis
    using h1 h2 authenticate_rpc_failure[OF h1 h2]
    by (simp add: auth_fail_env_def Errorf_def)
qed

subsection \<open>The handshake\<close>

text \<open>
  Claim C4. For every handshake verification: if the \<^verbatim>\<open>VerifyClientVersion\<close> RPC itself
  fails, the connection is closed at once (the close is the next call, and the handle is
  left closed) and a wrapped error is returned; if the RPC succeeds with an error code
  other than \<^verbatim>\<open>SUCCEEDED\<close>, an "incompatible handshakeKey" error carrying the server's
  message is returned, and the connection is not closed: no call follows the RPC and the
  connection is returned as it was.
\<close>
theorem verifyClientVersion_failures:
  assumes "graph cn = Some g"
  shows "verifyClientVersion env cn tr =
     (case verify_res env (tr @ [Call_VerifyClientVersion (handshake_req cn)]) of
        Inl e \<Rightarrow>
          Return (Some (Errorf (''failed to verify client handshakeKey: '' @ Error e)))
            (cn\<lparr>graph := Some (g\<lparr>opened := False\<rparr>)\<rparr>)
            (tr @ [Call_VerifyClientVersion (handshake_req cn), Call_Close])
      | Inr resp \<Rightarrow>
          if GetErrorCode resp \<noteq> ErrorCode_SUCCEEDED
          then Return (Some (Errorf (''incompatible handshakeKey between client and server: ''
                                     @ GetErrorMsg resp))) cn
                 (tr @ [Call_VerifyClientVersion (handshake_req cn)])
          else Return None cn (tr @ [Call_VerifyClientVersion (handshake_req cn)]))"
  using assms by (simp add: verifyClientVersion_Some Let_def split: sum.splits)

theorem verifyClientVersion_failures_witness:
  "graph open_cn = Some plain_stub \<and>
   verifyClientVersion reject_env open_cn [] =
     Return (Some (PlainError ''incompatible handshakeKey between client and server: bad key''))
       open_cn [Call_VerifyClientVersion None] \<and>
   is_open open_cn"
proof -
  have h1: "graph open_cn = Some plain_stub" by (simp add: open_cn_def)
  have k: "handshake_req open_cn = None" by (simp add: handshake_req_def open_cn_def)
  show ?thesis
    using h1 verifyClientVersion_failures[OF h1, of reject_env "[]"]
    by (simp add: k reject_env_def Errorf_def ErrorCode_SUCCEEDED_def is_open_def plain_stub_def)
qed

subsection \<open>open and the state of the transport\<close>

text \<open>
  Claim C2, as amended. After every sequence of the connection's methods, begun on a
  connection made by \<^verbatim>\<open>newConnection\<close>, the connection is closed, or open with the handshake
  on its transport answered \<^verbatim>\<open>SUCCEEDED\<close>, or open after a handshake that the server
  rejected; it is never open on a transport whose handshake was not made or whose
  handshake RPC failed. From every such state \<^verbatim>\<open>open\<close> returns. When it returns no error,
  the transport is open and handshaked. When it returns an error that is not the server's
  rejection of the handshake, either the connection keeps, untouched, the handle it had
  before the call (no transport could be constructed), or it is left closed: the last call
  is the \<^verbatim>\<open>Open\<close> that failed, the \<^verbatim>\<open>IsOpen\<close> that answered no, or the \<^verbatim>\<open>Close\<close> that
  \<^verbatim>\<open>verifyClientVersion\<close> issued. What a rejected handshake leaves behind is not part of
  the statement. Closed is what the code can mean by it: \<^verbatim>\<open>close\<close> drops what \<^verbatim>\<open>Close\<close>
  returns (line 236), so a handle on which \<^verbatim>\<open>Close\<close> was called counts as closed.
\<close>
theorem connection_settled:
  assumes "run_ops env ops (newConnection now addr) [] = Return () cn tr"
  shows "(\<not> is_open cn \<or> handshake_of env tr = Verified \<or> handshake_of env tr = Refused) \<and>
     (\<exists>err cn' tr'. open env a t s h2 hh k cn tr = Return err cn' tr' \<and>
        (err = None \<longrightarrow> is_open cn' \<and> handshaked env tr' \<and> handshake_of env tr' = Verified) \<and>
        (err \<noteq> None \<and> \<not> rejected env tr' \<longrightarrow>
           graph cn' = graph cn \<or>
           (\<not> is_open cn' \<and>
              (last tr' = Call_Open \<or> last tr' = Call_IsOpen \<or> last tr' = Call_Close))))"
proof
  show "\<not> is_open cn \<or> handshake_of env tr = Verified \<or> handshake_of env tr = Refused"
    using run_ops_settled[OF newConnection_settled assms] by (simp add: settled_def)
next
  show "\<exists>err cn' tr'. open env a t s h2 hh k cn tr = Return err cn' tr' \<and>
        (err = None \<longrightarrow> is_open cn' \<and> handshaked env tr' \<and> handshake_of env tr' = Verified) \<and>
        (err \<noteq> None \<and> \<not> rejected env tr' \<longrightarrow>
           graph cn' = graph cn \<or>
           (\<not> is_open cn' \<and>
              (last tr' = Call_Open \<or> last tr' = Call_IsOpen \<or> last tr' = Call_Close)))"
    using open_cases[where env=env and a=a and t=t and s=s and ?h2.0=h2 and hh=hh and k=k
                       and cn=cn and tr=tr]
      open_verified[where env=env and a=a and t=t and s=s and ?h2.0=h2 and hh=hh and k=k
                       and cn=cn and tr=tr]
      open_error[where env=env and a=a and t=t and s=s and ?h2.0=h2 and hh=hh and k=k
                       and cn=cn and tr=tr]
    by (cases "open env a t s h2 hh k cn tr") simp_all
qed

theorem connection_settled_witness:
  "run_ops second_verify_fail_env [] (newConnection 0 a1) [] = Return () (newConnection 0 a1) [] \<and>
   open second_verify_fail_env a1 1000 None False None [] (newConnection 0 a1) [] =
     Return None open_cn tr4 \<and>
   is_open open_cn \<and> handshaked second_verify_fail_env tr4 \<and>
   handshake_of second_verify_fail_env tr4 = Verified \<and>
   run_ops second_verify_fail_env [Op_open a1 1000 None False None []] (newConnection 0 a1) [] =
     Return () open_cn tr4 \<and>
   open second_verify_fail_env a1 1000 None False None [] open_cn tr4 =
     Return (Some (PlainError ''failed to verify client handshakeKey: EOF''))
       (open_cn\<lparr>graph := Some (plain_stub\<lparr>opened := False\<rparr>)\<rparr>)
       (tr4 @ [Call_NewSocket ''127.0.0.1:9669'' 1000, Call_Open, Call_IsOpen,
               Call_VerifyClientVersion None, Call_Close]) \<and>
   \<not> rejected second_verify_fail_env
       (tr4 @ [Call_NewSocket ''127.0.0.1:9669'' 1000, Call_Open, Call_IsOpen,
               Call_VerifyClientVersion None, Call_Close]) \<and>
   \<not> is_open (open_cn\<lparr>graph := Some (plain_stub\<lparr>opened := False\<rparr>)\<rparr>) \<and>
   last (tr4 @ [Call_NewSocket ''127.0.0.1:9669'' 1000, Call_Open, Call_IsOpen,
                Call_VerifyClientVersion None, Call_Close]) = Call_Close"
proof -
  have r0: "run_ops second_verify_fail_env [] (newConnection 0 a1) [] =
              Return () (newConnection 0 a1) []"
    by simp
  have o1: "open second_verify_fail_env a1 1000 None False None [] (newConnection 0 a1) [] =
              Return None open_cn tr4"
    by (simp add: open_eval second_verify_fail_env_def ok_env_def newConnection_def open_cn_def
          plain_stub_def tr4_def)
  have r1: "run_ops second_verify_fail_env [Op_open a1 1000 None False None []]
              (newConnection 0 a1) [] = Return () open_cn tr4"
    by (simp add: o1)
  have o2: "open second_verify_fail_env a1 1000 None False None [] open_cn tr4 =
     Return (Some (PlainError ''failed to verify client handshakeKey: EOF''))
       (open_cn\<lparr>graph := Some (plain_stub\<lparr>opened := False\<rparr>)\<rparr>)
       (tr4 @ [Call_NewSocket ''127.0.0.1:9669'' 1000, Call_Open, Call_IsOpen,
               Call_VerifyClientVersion None, Call_Close])"
    by (simp add: open_eval second_verify_fail_env_def ok_env_def open_cn_def plain_stub_def
          tr4_def)
  have i1: "is_open open_cn" by (simp add: is_open_def open_cn_def plain_stub_def)
  have i2: "\<not> is_open (open_cn\<lparr>graph := Some (plain_stub\<lparr>opened := False\<rparr>)\<rparr>)"
    by (simp add: is_open_def)
  have nr: "\<not> rejected second_verify_fail_env
       (tr4 @ [Call_NewSocket ''127.0.0.1:9669'' 1000, Call_Open, Call_IsOpen,
               Call_VerifyClientVersion None, Call_Close])"
    by (simp add: rejected_def)
  have l: "last (tr4 @ [Call_NewSocket ''127.0.0.1:9669'' 1000, Call_Open, Call_IsOpen,
                Call_VerifyClientVersion None, Call_Close]) = Call_Close"
    by simp
  from connection_settled[OF r0, of a1 1000 None False None "[]"]
    connection_settled[OF r1, of a1 1000 None False None "[]"]
    r0 o1 r1 o2 i1 i2 nr l
  show ?thesis by simp
qed

text \<open>
  The claim as it was stated fails in two ways. Where the server rejects the handshake,
  \<^verbatim>\<open>open\<close> returns the "incompatible handshakeKey" error and the transport it opened stays
  open, since \<^verbatim>\<open>verifyClientVersion\<close> does not close it in that branch. And where no
  transport can be constructed, \<^verbatim>\<open>open\<close> returns its error before it touches the handle,
  so a connection that was open and handshaked stays so: an error, and not a closed
  connection.
\<close>
theorem open_error_not_closed:
  "open reject_env a1 1000 None False None [] (newConnection 0 a1) [] =
     Return (Some (PlainError ''incompatible handshakeKey between client and server: bad key''))
       open_cn tr4 \<and>
   is_open open_cn \<and>
   handshake_of reject_env tr4 = Refused \<and>
   run_ops second_ctor_fail_env [Op_open a1 1000 None False None []] (newConnection 0 a1) [] =
     Return () open_cn tr4 \<and>
   open second_ctor_fail_env a1 1000 None False None [] open_cn tr4 =
     Return (Some (PlainError ''failed to create a net.Conn-backed Transport,: connection refused''))
       open_cn (tr4 @ [Call_NewSocket ''127.0.0.1:9669'' 1000])"
proof -
  have a: "open reject_env a1 1000 None False None [] (newConnection 0 a1) [] =
     Return (Some (PlainError ''incompatible handshakeKey between client and server: bad key''))
       open_cn tr4"
    by (simp add: open_eval reject_env_def ok_env_def newConnection_def open_cn_def plain_stub_def
          tr4_def)
  have b: "is_open open_cn" by (simp add: is_open_def open_cn_def plain_stub_def)
  have c: "handshake_of reject_env tr4 = Refused"
    by (simp add: handshake_of_def tr4_def reject_env_def ErrorCode_SUCCEEDED_def)
  have d: "open second_ctor_fail_env a1 1000 None False None [] (newConnection 0 a1) [] =
     Return None open_cn tr4"
    by (simp add: open_eval second_ctor_fail_env_def ok_env_def newConnection_def open_cn_def
          plain_stub_def tr4_def)
  have e: "open second_ctor_fail_env a1 1000 None False None [] open_cn tr4 =
     Return (Some (PlainError ''failed to create a net.Conn-backed Transport,: connection refused''))
       open_cn (tr4 @ [Call_NewSocket ''127.0.0.1:9669'' 1000])"
    by (simp add: open_eval second_ctor_fail_env_def ok_env_def open_cn_def tr4_def)
  show ?thesis using a b c d e by simp
qed

subsection \<open>The retry after a timeout\<close>

text \<open>
  Claim C3. For every call of \<^verbatim>\<open>ExecuteJsonWithParameter\<close> on an opened connection: if the
  RPC does not fail with a transport exception of type \<^verbatim>\<open>TIMED_OUT\<close>, its result or error
  is returned unchanged, the RPC is the only call made and the connection is untouched (no
  reopen). If it fails with a timeout, exactly one reopen is performed (one transport is
  constructed, and the reopen issues no request of its own); if the reopen fails, its error
  is returned in place of the timeout; if it succeeds, the same request is issued once
  more, as the last call, and whatever it returns is returned: it is not retried again.
\<close>
theorem ExecuteJsonWithParameter_retry:
  assumes "graph cn = Some g"
  shows
    "((\<forall>m. exec_json_res env (tr @ [Call_ExecuteJsonWithParameter sessionID stmt ps])
            \<noteq> Inl (TransportException TIMED_OUT m)) \<longrightarrow>
      ExecuteJsonWithParameter env sessionID stmt ps cn tr =
        Return (go_pair (exec_json_res env (tr @ [Call_ExecuteJsonWithParameter sessionID stmt ps])))
          cn (tr @ [Call_ExecuteJsonWithParameter sessionID stmt ps])) \<and>
     (\<forall>m. exec_json_res env (tr @ [Call_ExecuteJsonWithParameter sessionID stmt ps])
            = Inl (TransportException TIMED_OUT m) \<longrightarrow>
        (\<exists>reopenErr cn2 tr2.
           reopen env cn (tr @ [Call_ExecuteJsonWithParameter sessionID stmt ps])
             = Return reopenErr cn2 tr2 \<and>
           take (length (tr @ [Call_ExecuteJsonWithParameter sessionID stmt ps])) tr2
             = tr @ [Call_ExecuteJsonWithParameter sessionID stmt ps] \<and>
           length (filter is_new_transport
             (drop (length (tr @ [Call_ExecuteJsonWithParameter sessionID stmt ps])) tr2)) = 1 \<and>
           filter is_exec_json
             (drop (length (tr @ [Call_ExecuteJsonWithParameter sessionID stmt ps])) tr2) = [] \<and>
           ExecuteJsonWithParameter env sessionID stmt ps cn tr =
             (case reopenErr of
                Some e \<Rightarrow> Return (None, Some e) cn2 tr2
              | None \<Rightarrow>
                  Return (go_pair (exec_json_res env
                            (tr2 @ [Call_ExecuteJsonWithParameter sessionID stmt ps])))
                    cn2 (tr2 @ [Call_ExecuteJsonWithParameter sessionID stmt ps]))))"
proof (intro conjI impI allI)
  let ?c = "Call_ExecuteJsonWithParameter sessionID stmt ps"
  assume "\<forall>m. exec_json_res env (tr @ [?c]) \<noteq> Inl (TransportException TIMED_OUT m)"
  then show "ExecuteJsonWithParameter env sessionID stmt ps cn tr =
        Return (go_pair (exec_json_res env (tr @ [?c]))) cn (tr @ [?c])"
    using assms
    by (auto simp: ExecuteJsonWithParameter_def graph_ExecuteJsonWithParameter_def Let_def
          split: sum.splits error.splits)
next
  fix m
  let ?c = "Call_ExecuteJsonWithParameter sessionID stmt ps"
  assume t: "exec_json_res env (tr @ [?c]) = Inl (TransportException TIMED_OUT m)"
  show "\<exists>reopenErr cn2 tr2.
           reopen env cn (tr @ [?c]) = Return reopenErr cn2 tr2 \<and>
           take (length (tr @ [?c])) tr2 = tr @ [?c] \<and>
           length (filter is_new_transport (drop (length (tr @ [?c])) tr2)) = 1 \<and>
           filter is_exec_json (drop (length (tr @ [?c])) tr2) = [] \<and>
           ExecuteJsonWithParameter env sessionID stmt ps cn tr =
             (case reopenErr of
                Some e \<Rightarrow> Return (None, Some e) cn2 tr2
              | None \<Rightarrow>
                  Return (go_pair (exec_json_res env (tr2 @ [?c]))) cn2 (tr2 @ [?c]))"
  proof (cases "reopen env cn (tr @ [?c])")
    case Panic
    then show ?thesis using reopen_cases[OF assms, where env=env and tr="tr @ [?c]"] by simp
  next
    case (Return ro cn2 tr2)
    with reopen_cases[OF assms, where env=env and tr="tr @ [?c]"]
    have p: "take (length (tr @ [?c])) tr2 = tr @ [?c]"
      "length (filter is_new_transport (drop (length (tr @ [?c])) tr2)) = 1"
      "filter is_exec_json (drop (length (tr @ [?c])) tr2) = []"
      "ro = None \<longrightarrow> graph cn2 \<noteq> None"
      by simp_all
    have "ExecuteJsonWithParameter env sessionID stmt ps cn tr =
             (case ro of
                Some e \<Rightarrow> Return (None, Some e) cn2 tr2
              | None \<Rightarrow>
                  Return (go_pair (exec_json_res env (tr2 @ [?c]))) cn2 (tr2 @ [?c]))"
      using assms t Return p(4)
      by (auto simp: ExecuteJsonWithParameter_def graph_ExecuteJsonWithParameter_def Let_def
            split: option.splits)
    with Return p(1,2,3) show ?thesis by blast
  qed
qed

theorem ExecuteJsonWithParameter_retry_witness:
  "graph open_cn = Some plain_stub \<and>
   exec_json_res timeout_env ([] @ [Call_ExecuteJsonWithParameter 1 ''YIELD 1'' []])
     = Inl (TransportException TIMED_OUT ''i/o timeout'') \<and>
   ExecuteJsonWithParameter timeout_env 1 ''YIELD 1'' [] open_cn [] =
     Return (Some ''{}'', None) open_cn
       [Call_ExecuteJsonWithParameter 1 ''YIELD 1'' [], Call_Close,
        Call_NewSocket ''127.0.0.1:9669'' 1000, Call_Open, Call_IsOpen,
        Call_VerifyClientVersion None, Call_ExecuteJsonWithParameter 1 ''YIELD 1'' []] \<and>
   ExecuteJsonWithParameter ok_env 1 ''YIELD 1'' [] open_cn [] =
     Return (Some ''{}'', None) open_cn [Call_ExecuteJsonWithParameter 1 ''YIELD 1'' []]"
proof -
  have g: "graph open_cn = Some plain_stub" by (simp add: open_cn_def)
  show ?thesis
    using ExecuteJsonWithParameter_retry[OF g, of timeout_env "[]" 1 "''YIELD 1''" "[]"]
      ExecuteJsonWithParameter_retry[OF g, of ok_env "[]" 1 "''YIELD 1''" "[]"]
    by (simp add: ExecuteJsonWithParameter_def graph_ExecuteJsonWithParameter_def reopen_def
          close_def graph_Close_def open_eval timeout_env_def ok_env_def open_cn_def
          plain_stub_def TIMED_OUT_def)
qed

subsection \<open>The headers of the HTTP/2 transport\<close>

text \<open>
  Claim C8. For every \<^verbatim>\<open>open\<close> with \<^verbatim>\<open>useHTTP2\<close> set and a header map that is not \<^verbatim>\<open>nil\<close>, on
  which the HTTP client is constructed: the \<^verbatim>\<open>SetHeader\<close> calls made are exactly one call
  per value of every key other than \<^verbatim>\<open>Content-Type\<close>, and the client ends up with exactly
  those pairs; so for every key, the values added to the client are the values the map
  gives the key, one by one, and none for \<^verbatim>\<open>Content-Type\<close>.
\<close>
theorem open_copies_headers:
  assumes "new_transport_err env (tr @ [Call_NewHTTPPostClientWithOptions url s]) = None"
    and "url = (case s of Some c \<Rightarrow> ''https://'' | None \<Rightarrow> ''http://'')
               @ JoinHostPort (Host a) (Itoa (Port a))"
  shows "(\<exists>err cn' g' ext.
            open env a t s True (Some h) k cn tr =
              Return err cn'
                (tr @ [Call_NewHTTPPostClientWithOptions url s]
                    @ map (\<lambda>(k, v). Call_SetHeader k v) (spec_header_pairs h) @ ext) \<and>
            filter is_set_header ext = [] \<and>
            graph cn' = Some g' \<and> Trans g' = HTTPClient url s (spec_header_pairs h)) \<and>
         map snd (filter (\<lambda>p. fst p = key) (spec_header_pairs h)) =
           (if key = ''Content-Type'' then []
            else concat (map snd (filter (\<lambda>p. fst p = key) h)))"
proof
  let ?cn = "cn\<lparr>timeout := t, useHTTP2 := True, handshakeKey := k\<rparr>"
  let ?tr = "tr @ [Call_NewHTTPPostClientWithOptions url s]
                @ map (\<lambda>(k, v). Call_SetHeader k v) (spec_header_pairs h)"
  have o: "open env a t s True (Some h) k cn tr =
     open_graph env (HTTPClient url s (spec_header_pairs h)) BinaryProtocolFactoryDefault ?cn ?tr"
    using assms
    by (cases s) (simp_all add: open_def Let_def NewHTTPPostClientWithOptions_def set_headers_eq)
  obtain err cn' ext g' where
    "open_graph env (HTTPClient url s (spec_header_pairs h)) BinaryProtocolFactoryDefault ?cn ?tr
       = Return err cn' (?tr @ ext)"
    "filter is_set_header ext = []" "graph cn' = Some g'"
    "Trans g' = HTTPClient url s (spec_header_pairs h)"
    using open_graph_ex[where env=env and t="HTTPClient url s (spec_header_pairs h)"
        and pf=BinaryProtocolFactoryDefault and cn="?cn" and tr="?tr"]
    by blast
  then show "\<exists>err cn' g' ext.
            open env a t s True (Some h) k cn tr =
              Return err cn'
                (tr @ [Call_NewHTTPPostClientWithOptions url s]
                    @ map (\<lambda>(k, v). Call_SetHeader k v) (spec_header_pairs h) @ ext) \<and>
            filter is_set_header ext = [] \<and>
            graph cn' = Some g' \<and> Trans g' = HTTPClient url s (spec_header_pairs h)"
    using o by (intro exI[of _ err] exI[of _ cn'] exI[of _ g'] exI[of _ ext]) simp
next
  show "map snd (filter (\<lambda>p. fst p = key) (spec_header_pairs h)) =
           (if key = ''Content-Type'' then []
            else concat (map snd (filter (\<lambda>p. fst p = key) h)))"
    by (rule spec_header_pairs_key)
qed

theorem open_copies_headers_witness:
  "new_transport_err ok_env
     ([] @ [Call_NewHTTPPostClientWithOptions ''https://127.0.0.1:9669'' (Some 5)]) = None \<and>
   ''https://127.0.0.1:9669'' =
     (case Some (5::nat) of Some c \<Rightarrow> ''https://'' | None \<Rightarrow> ''http://'')
       @ JoinHostPort (Host a1) (Itoa (Port a1)) \<and>
   open ok_env a1 1000 (Some 5) True (Some h1) ''k'' (newConnection 0 a1) [] =
     Return None
       (open_cn\<lparr>useHTTP2 := True, handshakeKey := ''k'',
                graph := Some \<lparr>Trans = HTTPClient ''https://127.0.0.1:9669'' (Some 5)
                                         [(''Authorization'', ''a''), (''Authorization'', ''b'')],
                               Proto = BinaryProtocolFactoryDefault, opened = True\<rparr>\<rparr>)
       [Call_NewHTTPPostClientWithOptions ''https://127.0.0.1:9669'' (Some 5),
        Call_SetHeader ''Authorization'' ''a'', Call_SetHeader ''Authorization'' ''b'',
        Call_Open, Call_IsOpen, Call_VerifyClientVersion (Some ''k'')]"
proof -
  have a: "new_transport_err ok_env
     ([] @ [Call_NewHTTPPostClientWithOptions ''https://127.0.0.1:9669'' (Some 5)]) = None"
    by (simp add: ok_env_def)
  have b: "''https://127.0.0.1:9669'' =
     (case Some (5::nat) of Some c \<Rightarrow> ''https://'' | None \<Rightarrow> ''http://'')
       @ JoinHostPort (Host a1) (Itoa (Port a1))"
    by (simp add: newAdd_a1)
  have p: "spec_header_pairs h1 = [(''Authorization'', ''a''), (''Authorization'', ''b'')]"
    by (simp add: spec_header_pairs_def h1_def)
  have ev: "open ok_env a1 1000 (Some 5) True (Some h1) ''k'' (newConnection 0 a1) [] =
     Return None
       (open_cn\<lparr>useHTTP2 := True, handshakeKey := ''k'',
                graph := Some \<lparr>Trans = HTTPClient ''https://127.0.0.1:9669'' (Some 5)
                                         [(''Authorization'', ''a''), (''Authorization'', ''b'')],
                               Proto = BinaryProtocolFactoryDefault, opened = True\<rparr>\<rparr>)
       [Call_NewHTTPPostClientWithOptions ''https://127.0.0.1:9669'' (Some 5),
        Call_SetHeader ''Authorization'' ''a'', Call_SetHeader ''Authorization'' ''b'',
        Call_Open, Call_IsOpen, Call_VerifyClientVersion (Some ''k'')]"
    by (simp add: open_eval p ok_env_def newConnection_def open_cn_def)
  from open_copies_headers[OF a b, of 1000 h1 "''k''" "newConnection 0 a1" "''Authorization''"]
    a b ev
  show ?thesis by blast
qed

subsection \<open>reopen and the stored configuration\<close>

text \<open>
  Claim C1 says that \<^verbatim>\<open>reopen\<close> rebuilds the transport with the configuration given to the
  \<^verbatim>\<open>open\<close> that succeeded. The code does not: \<^verbatim>\<open>open\<close> stores the timeout, the transport
  variant and the handshake key, but never the TLS config, the headers or the address,
  which \<^verbatim>\<open>reopen\<close> nevertheless reads back from the connection. Here a connection opened
  over a TLS socket is reopened over a plain socket.
\<close>
theorem reopen_drops_tls_config:
  "open ok_env a1 1000 (Some 5) False None [] (newConnection 0 a1) [] =
     Return None tls_cn
       [Call_NewSSLSocketTimeout ''127.0.0.1:9669'' 5 1000, Call_Open, Call_IsOpen,
        Call_VerifyClientVersion None] \<and>
   reopen ok_env tls_cn
       [Call_NewSSLSocketTimeout ''127.0.0.1:9669'' 5 1000, Call_Open, Call_IsOpen,
        Call_VerifyClientVersion None] =
     Return None open_cn
       [Call_NewSSLSocketTimeout ''127.0.0.1:9669'' 5 1000, Call_Open, Call_IsOpen,
        Call_VerifyClientVersion None, Call_Close,
        Call_NewSocket ''127.0.0.1:9669'' 1000, Call_Open, Call_IsOpen,
        Call_VerifyClientVersion None] \<and>
   map_option Trans (graph tls_cn) =
     Some (HeaderTransport (BufferedTransport 131072 (SSLSocket ''127.0.0.1:9669'' 5 1000))) \<and>
   map_option Trans (graph open_cn) =
     Some (HeaderTransport (BufferedTransport 131072 (Socket ''127.0.0.1:9669'' 1000)))"
  by (simp add: reopen_def close_def graph_Close_def open_eval ok_env_def newConnection_def
        tls_cn_def open_cn_def plain_stub_def)

end
